theory Spec2Isabelle
  imports Main "HOL-Library.Sublist"
begin

section \<open>The values the page script handles\<close>

text \<open>
  \<^verbatim>\<open>static/script.js\<close> registers three listeners: on the file input's \<^verbatim>\<open>change\<close>, on
  the form's \<^verbatim>\<open>submit\<close>, and on the click of the analyze-another button. The model below
  follows them statement by statement. Text is a \<open>string\<close> holding the UTF-8 bytes of the
  source's text. What the script takes from the browser (\<^verbatim>\<open>JSON.parse\<close>,
  \<^verbatim>\<open>encodeURIComponent\<close>, the wording of the errors the engine raises) is a parameter of
  the model, the record \<open>engine\<close>.
\<close>

text \<open>
  The result of \<^verbatim>\<open>JSON.parse\<close>. An object is the list of its own properties; a number is
  one of the integers that JavaScript prints in plain decimal notation (a score of the
  endpoint is an integer from 0 to 100), numbers with a fraction are outside the model.
\<close>

datatype json =
    JNull
  | JBool bool
  | JNumber int
  | JString string
  | JArray "json list"
  | JObject "(string \<times> json) list"

text \<open>The exceptions that reach the \<^verbatim>\<open>catch\<close> block, each with its \<^verbatim>\<open>message\<close>.\<close>

datatype js_error =
    SyntaxError string
  | TypeError string
  | URIError string
  | Error string

fun message :: "js_error \<Rightarrow> string" where
  "message (SyntaxError m) = m"
| "message (TypeError m) = m"
| "message (URIError m) = m"
| "message (Error m) = m"

fun instanceof_SyntaxError :: "js_error \<Rightarrow> bool" where
  "instanceof_SyntaxError (SyntaxError m) = True"
| "instanceof_SyntaxError e = False"

text \<open>
  The places where the engine itself raises: the text it puts into the error is its own
  (it differs between browsers) and is read from \<open>fault_text\<close>. An expression's value is
  a \<open>json option\<close> where it may be \<^verbatim>\<open>undefined\<close>, which is \<open>None\<close>.
\<close>

datatype fault =
    BadJSON string
  | ReadOfNullish string "json option" string
  | NotAFunction string json string
  | NotPrimitive json
  | BadURI string

record engine =
  JSON_parse :: "string \<Rightarrow> json option"
  encodeURIComponent :: "string \<Rightarrow> string option"
  fault_text :: "fault \<Rightarrow> string"

definition and_then :: "('e + 'a) \<Rightarrow> ('a \<Rightarrow> 'e + 'b) \<Rightarrow> 'e + 'b" where
  "and_then m f = (case m of Inl e \<Rightarrow> Inl e | Inr v \<Rightarrow> f v)"

text \<open>Evaluating a list of expressions from left to right: the first exception ends it.\<close>

fun in_order :: "('e + 'a) list \<Rightarrow> 'e + 'a list" where
  "in_order [] = Inr []"
| "in_order (m # ms) =
     (case m of Inl e \<Rightarrow> Inl e
      | Inr v \<Rightarrow> (case in_order ms of Inl e \<Rightarrow> Inl e | Inr vs \<Rightarrow> Inr (v # vs)))"

section \<open>The operations of the language the script uses\<close>

definition digit_char :: "nat \<Rightarrow> char" where
  "digit_char d = ''0123456789'' ! (d mod 10)"

fun nat_digits :: "nat \<Rightarrow> string" where
  "nat_digits n = (if n < 10 then [digit_char n] else nat_digits (n div 10) @ [digit_char (n mod 10)])"

declare nat_digits.simps [simp del]

text \<open>
  The text of an integer: its decimal digits. This is what JavaScript prints for the
  integers it holds exactly, those between \<^verbatim>\<open>-Number.MAX_SAFE_INTEGER\<close> and
  \<^verbatim>\<open>Number.MAX_SAFE_INTEGER\<close> (status codes and scores from 0 to 100 among them);
  beyond that range a parsed number is rounded, and from \<^verbatim>\<open>1e21\<close> it is printed with
  an exponent, which \<open>Number_toString\<close> does not model.
\<close>

definition MAX_SAFE_INTEGER :: int where
  "MAX_SAFE_INTEGER = 9007199254740991"

definition isSafeInteger :: "int \<Rightarrow> bool" where
  "isSafeInteger n = (- MAX_SAFE_INTEGER \<le> n \<and> n \<le> MAX_SAFE_INTEGER)"

definition Number_toString :: "int \<Rightarrow> string" where
  "Number_toString i = (if i < 0 then CHR ''-'' # nat_digits (nat (- i)) else nat_digits (nat i))"

text \<open>\<^verbatim>\<open>Array.prototype.join\<close> on texts already converted.\<close>

fun join :: "string \<Rightarrow> string list \<Rightarrow> string" where
  "join sep [] = []"
| "join sep [s] = s"
| "join sep (s # t # ts) = s @ sep @ join sep (t # ts)"

text \<open>
  The conversion a template literal applies to \<^verbatim>\<open>${v}\<close>. An array converts through its
  \<^verbatim>\<open>join\<close>, where a \<^verbatim>\<open>null\<close> element gives the empty text. A parsed object inherits
  \<^verbatim>\<open>Object.prototype.toString\<close> unless it has a property \<^verbatim>\<open>toString\<close> of its own, which,
  coming from JSON, cannot be called: then the conversion raises a TypeError.
\<close>

fun ToString :: "engine \<Rightarrow> json \<Rightarrow> js_error + string" where
  "ToString g JNull = Inr ''null''"
| "ToString g (JBool b) = Inr (if b then ''true'' else ''false'')"
| "ToString g (JNumber n) = Inr (Number_toString n)"
| "ToString g (JString s) = Inr s"
| "ToString g (JArray xs) =
     (case in_order (map (\<lambda>x. if x = JNull then Inr [] else ToString g x) xs) of
        Inl e \<Rightarrow> Inl e
      | Inr ss \<Rightarrow> Inr (join '','' ss))"
| "ToString g (JObject kvs) =
     (if map_of kvs ''toString'' = None then Inr ''[object Object]''
      else Inl (TypeError (fault_text g (NotPrimitive (JObject kvs)))))"

text \<open>Truthiness, as \<^verbatim>\<open>||\<close> tests it; \<open>None\<close> is \<^verbatim>\<open>undefined\<close>.\<close>

fun ToBoolean :: "json option \<Rightarrow> bool" where
  "ToBoolean None = False"
| "ToBoolean (Some JNull) = False"
| "ToBoolean (Some (JBool b)) = b"
| "ToBoolean (Some (JNumber n)) = (n \<noteq> 0)"
| "ToBoolean (Some (JString s)) = (s \<noteq> [])"
| "ToBoolean (Some (JArray xs)) = True"
| "ToBoolean (Some (JObject kvs)) = True"

text \<open>
  Reading \<^verbatim>\<open>x.p\<close> for one of the property names of this script (\<^verbatim>\<open>error\<close>,
  \<^verbatim>\<open>match_score\<close>, \<^verbatim>\<open>summary\<close>, ...): on \<^verbatim>\<open>null\<close> it raises, on an object it is the
  property or \<^verbatim>\<open>undefined\<close>, on a number, a boolean, a text or an array it is
  \<^verbatim>\<open>undefined\<close>, since none of them has a property of these names.
\<close>

fun get_prop :: "engine \<Rightarrow> string \<Rightarrow> json \<Rightarrow> string \<Rightarrow> js_error + json option" where
  "get_prop g x JNull p = Inl (TypeError (fault_text g (ReadOfNullish x (Some JNull) p)))"
| "get_prop g x (JObject kvs) p = Inr (map_of kvs p)"
| "get_prop g x v p = Inr None"

text \<open>
  Calling \<^verbatim>\<open>x.join(sep)\<close> and \<^verbatim>\<open>x.map(f)\<close>, where \<open>x\<close> is the value of a property read
  before: only an array has these methods.
\<close>

definition Array_join :: "engine \<Rightarrow> string \<Rightarrow> json list \<Rightarrow> js_error + string" where
  "Array_join g sep xs =
     (case in_order (map (\<lambda>x. if x = JNull then Inr [] else ToString g x) xs) of
        Inl e \<Rightarrow> Inl e
      | Inr ss \<Rightarrow> Inr (join sep ss))"

fun call_join :: "engine \<Rightarrow> string \<Rightarrow> json option \<Rightarrow> string \<Rightarrow> js_error + string" where
  "call_join g x None sep = Inl (TypeError (fault_text g (ReadOfNullish x None ''join'')))"
| "call_join g x (Some JNull) sep = Inl (TypeError (fault_text g (ReadOfNullish x (Some JNull) ''join'')))"
| "call_join g x (Some (JArray xs)) sep = Array_join g sep xs"
| "call_join g x (Some v) sep = Inl (TypeError (fault_text g (NotAFunction x v ''join'')))"

fun call_map :: "engine \<Rightarrow> string \<Rightarrow> json option \<Rightarrow> (json \<Rightarrow> js_error + 'a) \<Rightarrow> js_error + 'a list" where
  "call_map g x None f = Inl (TypeError (fault_text g (ReadOfNullish x None ''map'')))"
| "call_map g x (Some JNull) f = Inl (TypeError (fault_text g (ReadOfNullish x (Some JNull) ''map'')))"
| "call_map g x (Some (JArray xs)) f = in_order (map f xs)"
| "call_map g x (Some v) f = Inl (TypeError (fault_text g (NotAFunction x v ''map'')))"

text \<open>\<^verbatim>\<open>a || b\<close> on a value that may be \<^verbatim>\<open>undefined\<close>, and on a text.\<close>

fun logical_or :: "json option \<Rightarrow> json \<Rightarrow> json" where
  "logical_or None d = d"
| "logical_or (Some v) d = (if ToBoolean (Some v) then v else d)"

definition text_or :: "string \<Rightarrow> string \<Rightarrow> string" where
  "text_or s d = (if s \<noteq> [] then s else d)"

text \<open>
  \<^verbatim>\<open>new Error(v)\<close> converts its argument to the message; \<^verbatim>\<open>encodeURIComponent(v)\<close>
  converts its argument to a text and raises a URIError where the text cannot be encoded.
\<close>

definition new_Error :: "engine \<Rightarrow> json \<Rightarrow> js_error + js_error" where
  "new_Error g v = and_then (ToString g v) (\<lambda>m. Inr (Error m))"

definition encode_component :: "engine \<Rightarrow> json \<Rightarrow> js_error + string" where
  "encode_component g v =
     and_then (ToString g v) (\<lambda>s.
       case encodeURIComponent g s of
         None \<Rightarrow> Inl (URIError (fault_text g (BadURI s)))
       | Some t \<Rightarrow> Inr t)"

section \<open>The page and the response\<close>

text \<open>
  The elements the script selects, each with what the script reads or writes of it:
  the \<^verbatim>\<open>style.display\<close> of the loader, of \<^verbatim>\<open>main\<close> (\<^verbatim>\<open>formContainer\<close>), of the
  results container and of the analyze-another button, the \<^verbatim>\<open>innerHTML\<close> of the results
  container, the text of the file name display, and the names of the files chosen in the
  file input.

  Modelled from the spec: the markup of the form is not part of the sources. The spec
  gives the form a resume file field and an optional job-description field and says that
  a reset clears the form's fields; \<open>job_description_value\<close> and \<open>form_reset\<close> follow that.
\<close>

record page =
  loader_display :: string
  formContainer_display :: string
  resultsDiv_display :: string
  resultsDiv_innerHTML :: string
  analyzeAnotherBtn_display :: string
  fileNameDisplay_textContent :: string
  resumeInput_files :: "string list"
  job_description_value :: string

definition form_reset :: "page \<Rightarrow> page" where
  "form_reset u = u\<lparr>resumeInput_files := [], job_description_value := []\<rparr>"

text \<open>
  What \<^verbatim>\<open>await fetch(...)\<close> followed by \<^verbatim>\<open>await response.text()\<close> gives: a rejection,
  or a response with its status, status text and body. \<^verbatim>\<open>response.ok\<close> is true for a
  status from 200 to 299.
\<close>

record response =
  status :: nat
  statusText :: string
  rawText :: string

datatype fetched = Rejected js_error | Responded response

definition ok :: "response \<Rightarrow> bool" where
  "ok r = (200 \<le> status r \<and> status r \<le> 299)"

section \<open>The file input's change listener\<close>

definition on_change :: "page \<Rightarrow> page" where
  "on_change u =
     (if length (resumeInput_files u) > 0
      then u\<lparr>fileNameDisplay_textContent := resumeInput_files u ! 0\<rparr>
      else u\<lparr>fileNameDisplay_textContent := ''No file chosen''\<rparr>)"

section \<open>The form's submit listener\<close>

subsection \<open>The branch of a failure status\<close>

text \<open>
  The inner \<^verbatim>\<open>try\<close> parses the body and throws an \<^verbatim>\<open>Error\<close> built from its
  \<^verbatim>\<open>error\<close> property; it never completes normally. Its \<^verbatim>\<open>catch (e)\<close> receives whatever
  the inner \<^verbatim>\<open>try\<close> threw, that \<^verbatim>\<open>Error\<close> included, and throws the error of the status
  line instead.
\<close>

definition error_status_try :: "engine \<Rightarrow> response \<Rightarrow> js_error + unit" where
  "error_status_try g r =
     (case JSON_parse g (rawText r) of
        None \<Rightarrow> Inl (SyntaxError (fault_text g (BadJSON (rawText r))))
      | Some errorData \<Rightarrow>
          and_then (get_prop g ''errorData'' errorData ''error'') (\<lambda>e.
          and_then (new_Error g (logical_or e (JString ''Something went wrong on the server.'')))
            (\<lambda>err. Inl err)))"

definition status_line :: "response \<Rightarrow> string" where
  "status_line r =
     ''Server returned an error: '' @ Number_toString (int (status r)) @ '' '' @ statusText r"

definition error_status_branch :: "engine \<Rightarrow> response \<Rightarrow> js_error + unit" where
  "error_status_branch g r =
     (case error_status_try g r of
        Inl e \<Rightarrow> Inl (Error (status_line r))
      | Inr u \<Rightarrow> Inr u)"

subsection \<open>The two templates\<close>

definition li_element :: "string \<Rightarrow> string" where
  \<open>li_element s = ''<li>'' @ s @ ''</li>''\<close>

definition list_item :: "engine \<Rightarrow> json \<Rightarrow> js_error + string" where
  "list_item g item = and_then (ToString g item) (\<lambda>s. Inr (li_element s))"

definition linkedinUrl :: "string \<Rightarrow> string" where
  \<open>linkedinUrl enc = ''https://www.linkedin.com/jobs/search/?keywords='' @ enc @ ''&location=India''\<close>

definition search_link :: "string \<Rightarrow> string" where
  \<open>search_link enc =
     ''<a href="'' @ linkedinUrl enc @ ''" target="_blank">Search on LinkedIn</a>''\<close>

definition role_item :: "engine \<Rightarrow> json \<Rightarrow> js_error + string" where
  \<open>role_item g role =
     and_then (encode_component g role) (\<lambda>enc.
     and_then (ToString g role) (\<lambda>s.
       Inr (li_element (s @ '' - '' @ search_link enc))))\<close>

definition default_summary :: string where
  \<open>default_summary = ''A summary of how well your resume matches the job description.''\<close>

definition no_missing_keywords :: string where
  \<open>no_missing_keywords = ''Great job, no critical keywords seem to be missing!''\<close>

definition score_span :: "string \<Rightarrow> string" where
  \<open>score_span s = ''<span class="score">'' @ s @ ''/100</span>''\<close>

definition p_element :: "string \<Rightarrow> string" where
  \<open>p_element s = ''<p>'' @ s @ ''</p>''\<close>

definition match_html :: "string \<Rightarrow> string \<Rightarrow> string \<Rightarrow> string list \<Rightarrow> string" where
  \<open>match_html score summary keywords items =
     ''\<newline>                    <h3>Match Score: '' @ score_span score @ ''</h3>''
     @ ''\<newline>                    '' @ p_element summary
     @ ''\<newline>                    <h4>'' @ [CHR 0xE2, CHR 0x9D, CHR 0x8C] @ '' Missing Keywords:</h4>''
     @ ''\<newline>                    '' @ p_element keywords
     @ ''\<newline>                    <h4>'' @ [CHR 0xF0, CHR 0x9F, CHR 0x92, CHR 0xA1]
     @ '' Tailoring Suggestions:</h4>''
     @ ''\<newline>                    <ul>'' @ join [] items @ ''</ul>''
     @ ''\<newline>                ''\<close>

definition match_template :: "engine \<Rightarrow> json \<Rightarrow> js_error + string" where
  "match_template g analysis =
     and_then (get_prop g ''analysis'' analysis ''match_score'') (\<lambda>match_score.
     and_then (case match_score of None \<Rightarrow> Inr ''undefined'' | Some v \<Rightarrow> ToString g v) (\<lambda>score.
     and_then (get_prop g ''analysis'' analysis ''summary'') (\<lambda>summary.
     and_then (ToString g (logical_or summary (JString default_summary))) (\<lambda>summary_text.
     and_then (get_prop g ''analysis'' analysis ''missing_keywords'') (\<lambda>missing_keywords.
     and_then (call_join g ''analysis.missing_keywords'' missing_keywords '', '') (\<lambda>joined.
     and_then (get_prop g ''analysis'' analysis ''tailoring_suggestions'') (\<lambda>tailoring_suggestions.
     and_then (call_map g ''analysis.tailoring_suggestions'' tailoring_suggestions (list_item g))
       (\<lambda>items.
         Inr (match_html score summary_text (text_or joined no_missing_keywords) items)))))))))"

definition general_html :: "string \<Rightarrow> string list \<Rightarrow> string list \<Rightarrow> string list \<Rightarrow> string" where
  \<open>general_html score strengths feedback roles =
     ''\<newline>                    <h3>ATS Score: '' @ score_span score @ ''</h3>''
     @ ''\<newline>                    <h4>'' @ [CHR 0xE2, CHR 0x9C, CHR 0x85] @ '' Strengths:</h4>''
     @ ''\<newline>                    <ul>'' @ join [] strengths @ ''</ul>''
     @ ''\<newline>                    <h4>'' @ [CHR 0xF0, CHR 0x9F, CHR 0x93, CHR 0x9D]
     @ '' Feedback for Improvement:</h4>''
     @ ''\<newline>                    <ul>'' @ join [] feedback @ ''</ul>''
     @ ''\<newline>                    <h4>'' @ [CHR 0xF0, CHR 0x9F, CHR 0x9A, CHR 0x80]
     @ '' Suggested Job Roles:</h4>''
     @ ''\<newline>                    <ul>'' @ join [] roles @ ''</ul>''
     @ ''\<newline>                ''\<close>

definition general_template :: "engine \<Rightarrow> json \<Rightarrow> js_error + string" where
  "general_template g analysis =
     and_then (get_prop g ''analysis'' analysis ''ats_score'') (\<lambda>ats_score.
     and_then (ToString g (logical_or ats_score (JString ''N/A''))) (\<lambda>score.
     and_then (get_prop g ''analysis'' analysis ''strengths'') (\<lambda>strengths.
     and_then (call_map g ''analysis.strengths'' strengths (list_item g)) (\<lambda>strength_items.
     and_then (get_prop g ''analysis'' analysis ''feedback'') (\<lambda>feedback.
     and_then (call_map g ''analysis.feedback'' feedback (list_item g)) (\<lambda>feedback_items.
     and_then (get_prop g ''analysis'' analysis ''job_suggestions'') (\<lambda>job_suggestions.
     and_then (call_map g ''analysis.job_suggestions'' job_suggestions (role_item g))
       (\<lambda>role_items.
         Inr (general_html score strength_items feedback_items role_items)))))))))"

subsection \<open>The \<^verbatim>\<open>try\<close> block, the \<^verbatim>\<open>catch\<close> block, the \<^verbatim>\<open>finally\<close> block\<close>

definition render :: "engine \<Rightarrow> response \<Rightarrow> js_error + string" where
  "render g r =
     (case JSON_parse g (rawText r) of
        None \<Rightarrow> Inl (SyntaxError (fault_text g (BadJSON (rawText r))))
      | Some analysis \<Rightarrow>
          and_then (get_prop g ''analysis'' analysis ''match_score'') (\<lambda>match_score.
          and_then (if match_score \<noteq> None then match_template g analysis
                    else general_template g analysis) (\<lambda>body.
            Inr (''<h2>Analysis Complete!</h2>'' @ body))))"

definition try_block :: "engine \<Rightarrow> fetched \<Rightarrow> js_error + string" where
  "try_block g net =
     (case net of
        Rejected e \<Rightarrow> Inl e
      | Responded r \<Rightarrow>
          and_then (if \<not> ok r then error_status_branch g r else Inr ()) (\<lambda>u. render g r))"

definition parse_explanation :: string where
  \<open>parse_explanation = ''There was a problem parsing the AI's response. This can happen with very large resumes. Please try again.''\<close>

definition error_box :: "string \<Rightarrow> string" where
  \<open>error_box errorMessage =
     ''<div class="error-box">''
     @ ''\<newline>                <h3>Analysis Failed</h3>''
     @ ''\<newline>                <p>'' @ errorMessage @ ''</p>''
     @ ''\<newline>                <p>Please try again with a different PDF file.</p>''
     @ ''\<newline>            </div>''\<close>

definition errorMessage_of :: "js_error \<Rightarrow> string" where
  "errorMessage_of error =
     (if instanceof_SyntaxError error then parse_explanation else message error)"

definition catch_block :: "js_error \<Rightarrow> page \<Rightarrow> page" where
  "catch_block error u = u\<lparr>resultsDiv_innerHTML := error_box (errorMessage_of error)\<rparr>"

definition finally_block :: "page \<Rightarrow> page" where
  "finally_block u =
     u\<lparr>loader_display := ''none'', resultsDiv_display := ''block'',
       analyzeAnotherBtn_display := ''block''\<rparr>"

definition on_submit :: "engine \<Rightarrow> fetched \<Rightarrow> page \<Rightarrow> page" where
  "on_submit g net u =
     (let u1 = u\<lparr>loader_display := ''block'', formContainer_display := ''none'',
                 resultsDiv_display := ''none'', resultsDiv_innerHTML := []\<rparr>;
          u2 = (case try_block g net of
                  Inr htmlContent \<Rightarrow> u1\<lparr>resultsDiv_innerHTML := htmlContent\<rparr>
                | Inl error \<Rightarrow> catch_block error u1)
      in finally_block u2)"

section \<open>The analyze-another button's click listener\<close>

definition on_reset :: "page \<Rightarrow> page" where
  "on_reset u =
     (let u1 = u\<lparr>resultsDiv_display := ''none''\<rparr>;
          u2 = u1\<lparr>analyzeAnotherBtn_display := ''none''\<rparr>;
          u3 = form_reset u2;
          u4 = u3\<lparr>fileNameDisplay_textContent := ''No file chosen''\<rparr>
      in u4\<lparr>formContainer_display := ''block''\<rparr>)"

section \<open>A browser for the examples\<close>

text \<open>
  The examples below run the listeners on concrete responses. \<open>example_engine\<close> answers
  as a browser does on them: its \<^verbatim>\<open>JSON.parse\<close> knows the bodies listed in
  \<open>example_bodies\<close> and rejects the one other body the examples use, which is not JSON;
  its \<^verbatim>\<open>encodeURIComponent\<close> keeps the unreserved characters and writes every other
  byte of the UTF-8 text as \<^verbatim>\<open>%XX\<close>; its error texts are those of V8.
\<close>

definition example_bodies :: "(string \<times> json) list" where
  \<open>example_bodies =
    [(''{"error":"X"}'', JObject [(''error'', JString ''X'')]),
     (''{"match_score":85,"summary":"Strong fit.","missing_keywords":["Docker","AWS"],"tailoring_suggestions":["Add metrics"]}'',
      JObject [(''match_score'', JNumber 85), (''summary'', JString ''Strong fit.''),
               (''missing_keywords'', JArray [JString ''Docker'', JString ''AWS'']),
               (''tailoring_suggestions'', JArray [JString ''Add metrics''])]),
     (''{"match_score":100,"missing_keywords":[],"tailoring_suggestions":[]}'',
      JObject [(''match_score'', JNumber 100), (''missing_keywords'', JArray []),
               (''tailoring_suggestions'', JArray [])]),
     (''{"ats_score":72,"strengths":["Clear layout"],"feedback":["Add a summary"],"job_suggestions":["Data Analyst"]}'',
      JObject [(''ats_score'', JNumber 72), (''strengths'', JArray [JString ''Clear layout'']),
               (''feedback'', JArray [JString ''Add a summary'']),
               (''job_suggestions'', JArray [JString ''Data Analyst''])]),
     (''{"ats_score":0,"strengths":[],"feedback":[],"job_suggestions":[]}'',
      JObject [(''ats_score'', JNumber 0), (''strengths'', JArray []),
               (''feedback'', JArray []), (''job_suggestions'', JArray [])]),
     (''{"match_score":50}'', JObject [(''match_score'', JNumber 50)])]\<close>

definition unreserved :: "char \<Rightarrow> bool" where
  \<open>unreserved c =
     (c \<in> set (''ABCDEFGHIJKLMNOPQRSTUVWXYZabcdefghijklmnopqrstuvwxyz0123456789-_.!~*()''
               @ [CHR 0x27]))\<close>

definition hex_digit :: "nat \<Rightarrow> char" where
  "hex_digit d = ''0123456789ABCDEF'' ! (d mod 16)"

definition percent_encode :: "string \<Rightarrow> string" where
  "percent_encode s =
     concat (map (\<lambda>c. if unreserved c then [c]
                       else [CHR ''%'', hex_digit (of_char c div 16), hex_digit (of_char c)]) s)"

fun v8_text :: "fault \<Rightarrow> string" where
  \<open>v8_text (BadJSON s) = ''Unexpected token''\<close>
| \<open>v8_text (ReadOfNullish x None p) =
     ''Cannot read properties of undefined (reading '' @ [CHR 0x27] @ p @ [CHR 0x27] @ '')''\<close>
| \<open>v8_text (ReadOfNullish x (Some v) p) =
     ''Cannot read properties of null (reading '' @ [CHR 0x27] @ p @ [CHR 0x27] @ '')''\<close>
| \<open>v8_text (NotAFunction x v p) = x @ ''.'' @ p @ '' is not a function''\<close>
| \<open>v8_text (NotPrimitive v) = ''Cannot convert object to primitive value''\<close>
| \<open>v8_text (BadURI s) = ''URI malformed''\<close>

definition example_engine :: engine where
  "example_engine =
     \<lparr>JSON_parse = map_of example_bodies,
      encodeURIComponent = (\<lambda>s. Some (percent_encode s)),
      fault_text = v8_text\<rparr>"

definition example_page :: page where
  "example_page =
     \<lparr>loader_display = ''none'', formContainer_display = ''block'',
      resultsDiv_display = ''none'', resultsDiv_innerHTML = [],
      analyzeAnotherBtn_display = ''none'', fileNameDisplay_textContent = ''No file chosen'',
      resumeInput_files = [''cv.pdf''], job_description_value = ''Data engineer''\<rparr>"

section \<open>Facts about the submit listener\<close>


lemma and_then_Inr [simp]: "and_then (Inr v) f = f v"
  by (simp add: and_then_def)

lemma and_then_Inl [simp]: "and_then (Inl e) f = Inl e"
  by (simp add: and_then_def)

lemma error_status_try_raises: "\<exists>e. error_status_try g r = Inl e"
  by (auto simp: error_status_try_def and_then_def new_Error_def split: option.splits sum.splits)

lemma error_status_branch_raises: "error_status_branch g r = Inl (Error (status_line r))"
  using error_status_try_raises [of g r] by (auto simp: error_status_branch_def)

lemma try_block_failure_status:
  "\<not> ok r \<Longrightarrow> try_block g (Responded r) = Inl (Error (status_line r))"
  by (simp add: try_block_def error_status_branch_raises)

lemma try_block_ok: "ok r \<Longrightarrow> try_block g (Responded r) = render g r"
  by (simp add: try_block_def)

lemma on_submit_error:
  "try_block g net = Inl e \<Longrightarrow>
   resultsDiv_innerHTML (on_submit g net u) = error_box (errorMessage_of e)"
  by (simp add: on_submit_def finally_block_def catch_block_def)

lemma on_submit_html:
  "try_block g net = Inr h \<Longrightarrow> resultsDiv_innerHTML (on_submit g net u) = h"
  by (simp add: on_submit_def finally_block_def Let_def)


section \<open>Failure status, cleanup, reset and file name\<close>

text \<open>
  Claim C1: for a response with a failure status whose body is the JSON text
  \<^verbatim>\<open>{"error":"X"}\<close>, the error message rendered in the results container is \<^verbatim>\<open>X\<close>.

  The listener does not do that. The \<^verbatim>\<open>Error\<close> carrying \<^verbatim>\<open>X\<close> is thrown inside the inner
  \<^verbatim>\<open>try\<close>, so the inner \<^verbatim>\<open>catch\<close> receives it and throws the error of the status line:
  on status 400 (Bad Request) with that body the message rendered is the status line.
\<close>

theorem error_field_not_rendered:
  \<open>JSON_parse example_engine ''{"error":"X"}'' = Some (JObject [(''error'', JString ''X'')])
   \<and> \<not> ok \<lparr>status = 400, statusText = ''Bad Request'', rawText = ''{"error":"X"}''\<rparr>
   \<and> resultsDiv_innerHTML
        (on_submit example_engine
           (Responded \<lparr>status = 400, statusText = ''Bad Request'', rawText = ''{"error":"X"}''\<rparr>)
           example_page)
      = error_box ''Server returned an error: 400 Bad Request''
   \<and> resultsDiv_innerHTML
        (on_submit example_engine
           (Responded \<lparr>status = 400, statusText = ''Bad Request'', rawText = ''{"error":"X"}''\<rparr>)
           example_page)
      \<noteq> error_box ''X''\<close>
  by (simp add: on_submit_def finally_block_def catch_block_def try_block_def
      error_status_branch_def error_status_try_def new_Error_def errorMessage_of_def
      status_line_def ok_def example_engine_def example_bodies_def Number_toString_def
      nat_digits.simps digit_char_def error_box_def)

text \<open>
  Claim C5: for a response with a failure status whose body is not valid JSON, the
  error message rendered is \<^verbatim>\<open>Server returned an error: <status> <statusText>\<close>, built
  from the status code and the status text of the response.
\<close>

theorem failure_status_invalid_body:
  "\<not> ok r \<Longrightarrow> JSON_parse g (rawText r) = None \<Longrightarrow>
   resultsDiv_innerHTML (on_submit g (Responded r) u)
     = error_box (''Server returned an error: '' @ Number_toString (int (status r)) @ '' ''
                  @ statusText r)"
  using on_submit_error [OF try_block_failure_status, of r g u]
  by (simp add: errorMessage_of_def status_line_def)

theorem failure_status_invalid_body_witness:
  "\<not> ok \<lparr>status = 502, statusText = ''Bad Gateway'', rawText = ''<html>Bad Gateway</html>''\<rparr>
   \<and> JSON_parse example_engine ''<html>Bad Gateway</html>'' = None
   \<and> resultsDiv_innerHTML
        (on_submit example_engine
           (Responded \<lparr>status = 502, statusText = ''Bad Gateway'',
                        rawText = ''<html>Bad Gateway</html>''\<rparr>) example_page)
      = error_box ''Server returned an error: 502 Bad Gateway''"
  using failure_status_invalid_body
    [of "\<lparr>status = 502, statusText = ''Bad Gateway'', rawText = ''<html>Bad Gateway</html>''\<rparr>"
        example_engine example_page]
  by (simp add: ok_def example_engine_def example_bodies_def Number_toString_def
      nat_digits.simps digit_char_def)

text \<open>
  Claim C6: after every completed submission, whether it ended in success or in any
  error, the loader is hidden, the results container is visible and the analyze-another
  action is visible.
\<close>

theorem submit_cleanup:
  "loader_display (on_submit g net u) = ''none''
   \<and> resultsDiv_display (on_submit g net u) = ''block''
   \<and> analyzeAnotherBtn_display (on_submit g net u) = ''block''"
  by (simp add: on_submit_def finally_block_def Let_def)

text \<open>
  Claim C7: after every invocation of the reset action, the results container and the
  analyze-another action are hidden, the form's fields are cleared, the file name display
  shows the placeholder text, and the form is visible again.
\<close>

theorem reset_restores_form:
  "resultsDiv_display (on_reset u) = ''none''
   \<and> analyzeAnotherBtn_display (on_reset u) = ''none''
   \<and> resumeInput_files (on_reset u) = []
   \<and> job_description_value (on_reset u) = []
   \<and> fileNameDisplay_textContent (on_reset u) = ''No file chosen''
   \<and> formContainer_display (on_reset u) = ''block''"
  by (simp add: on_reset_def form_reset_def)

text \<open>
  Claim C8: on every change event of the file input, the file name display shows the
  name of the chosen file when exactly one file is selected, and the placeholder text
  when no file is selected.
\<close>

theorem change_shows_file_name:
  "(resumeInput_files u = [f] \<longrightarrow> fileNameDisplay_textContent (on_change u) = f)
   \<and> (resumeInput_files u = [] \<longrightarrow> fileNameDisplay_textContent (on_change u) = ''No file chosen'')"
  by (simp add: on_change_def)

theorem change_shows_file_name_witness:
  "resumeInput_files example_page = [''cv.pdf'']
   \<and> fileNameDisplay_textContent (on_change example_page) = ''cv.pdf''
   \<and> resumeInput_files (example_page\<lparr>resumeInput_files := []\<rparr>) = []
   \<and> fileNameDisplay_textContent (on_change (example_page\<lparr>resumeInput_files := []\<rparr>))
       = ''No file chosen''"
  using change_shows_file_name [of example_page "''cv.pdf''"]
    change_shows_file_name [of "example_page\<lparr>resumeInput_files := []\<rparr>" "''cv.pdf''"]
  by (simp add: example_page_def)

section \<open>Rendering a match analysis\<close>

lemma in_order_Inr: "in_order (map Inr xs) = Inr xs"
  by (induction xs) simp_all

lemma in_order_map_Inr: "in_order (map (\<lambda>x. Inr (f x)) xs) = Inr (map f xs)"
  by (induction xs) simp_all

lemma list_item_text: "list_item g (JString s) = Inr (li_element s)"
  by (simp add: list_item_def)

lemma call_map_texts:
  "call_map g x (Some (JArray (map JString ts))) (list_item g) = Inr (map li_element ts)"
  by (simp add: comp_def list_item_text in_order_map_Inr)

lemma Array_join_texts: "Array_join g sep (map JString ks) = Inr (join sep ks)"
  by (simp add: Array_join_def comp_def in_order_Inr)

lemma call_join_texts:
  "call_join g x (Some (JArray (map JString ks))) sep = Inr (join sep ks)"
  by (simp add: Array_join_texts)

lemma sublist_right: "sublist x ys \<Longrightarrow> sublist x (zs @ ys)"
  by (metis append.assoc sublist_def)

lemma sublist_trans: "sublist x y \<Longrightarrow> sublist y z \<Longrightarrow> sublist x z"
  by (metis append.assoc sublist_def)

lemma sublist_join: "s \<in> set ss \<Longrightarrow> sublist s (join sep ss)"
proof (induction sep ss rule: join.induct)
  case (3 sep s' t ts)
  show ?case
  proof (cases "s = s'")
    case True
    then show ?thesis by simp
  next
    case False
    with 3 have "sublist s (join sep (t # ts))" by simp
    then show ?thesis by (simp add: sublist_right)
  qed
qed simp_all

lemma sublist_text_or: "s \<in> set ss \<Longrightarrow> sublist s (text_or (join sep ss) d)"
  using sublist_join [of s ss sep] by (auto simp: text_or_def)

lemma sublist_items: "t \<in> set ts \<Longrightarrow> sublist (f t) (join [] (map f ts))"
  by (simp add: sublist_join)

lemma sublist_p_element: "sublist s (p_element s)"
  unfolding p_element_def by (rule sublist_appendI)

lemma score_in_match_html: "sublist (score_span sc) (match_html sc sm kw items)"
  unfolding match_html_def by (rule sublist_append_rightI | rule sublist_right)+


lemma keywords_in_match_html: "sublist (p_element kw) (match_html sc sm kw items)"
  unfolding match_html_def by (rule sublist_append_rightI | rule sublist_right)+

lemma items_in_match_html: "sublist (join [] items) (match_html sc sm kw items)"
  unfolding match_html_def by (rule sublist_append_rightI | rule sublist_right)+

lemma summary_text_cases:
  assumes "sm = None \<or> sm = Some (JString s)"
  shows "ToString g (logical_or sm (JString default_summary))
           = Inr (if sm = None \<or> s = [] then default_summary else s)"
  using assms by auto

lemma match_template_texts:
  assumes "map_of kvs ''match_score'' = Some (JNumber n)"
    and "map_of kvs ''summary'' = None \<or> map_of kvs ''summary'' = Some (JString s)"
    and "map_of kvs ''missing_keywords'' = Some (JArray (map JString ks))"
    and "map_of kvs ''tailoring_suggestions'' = Some (JArray (map JString ts))"
  shows "match_template g (JObject kvs)
           = Inr (match_html (Number_toString n)
                   (if map_of kvs ''summary'' = None \<or> s = [] then default_summary else s)
                   (text_or (join '', '' ks) no_missing_keywords)
                   (map li_element ts))"
proof -
  have sm: "ToString g (logical_or (map_of kvs ''summary'') (JString default_summary))
              = Inr (if map_of kvs ''summary'' = None \<or> s = [] then default_summary else s)"
    using assms(2) by (rule summary_text_cases)
  show ?thesis
    unfolding match_template_def
    by (simp only: get_prop.simps assms(1,3,4) and_then_Inr option.case ToString.simps sm
        call_join_texts call_map_texts)
qed


lemma render_match_texts:
  assumes "JSON_parse g (rawText r) = Some (JObject kvs)"
    and "map_of kvs ''match_score'' = Some (JNumber n)"
    and "map_of kvs ''summary'' = None \<or> map_of kvs ''summary'' = Some (JString s)"
    and "map_of kvs ''missing_keywords'' = Some (JArray (map JString ks))"
    and "map_of kvs ''tailoring_suggestions'' = Some (JArray (map JString ts))"
  shows "render g r
           = Inr (''<h2>Analysis Complete!</h2>''
                  @ match_html (Number_toString n)
                      (if map_of kvs ''summary'' = None \<or> s = [] then default_summary else s)
                      (text_or (join '', '' ks) no_missing_keywords)
                      (map li_element ts))"
  unfolding render_def
  by (simp only: assms(1,2) option.case get_prop.simps and_then_Inr
      match_template_texts [OF assms(2-5)] option.distinct not_False_eq_True if_True)






lemma sublist_li_element: "sublist s (li_element s)"
  unfolding li_element_def by (rule sublist_appendI)

lemma sublist_score_span: "sublist s (score_span s)"
  unfolding score_span_def by (rule sublist_appendI)


text \<open>
  Claim C3: for a response with a success status whose body is valid JSON with a
  \<^verbatim>\<open>match_score\<close> field, the rendered output includes that score, every element of
  \<^verbatim>\<open>missing_keywords\<close> and every element of \<^verbatim>\<open>tailoring_suggestions\<close>. The body has
  the shape of a match analysis: the score is an integer that JavaScript holds exactly,
  the summary is a text or is absent, and the two lists are lists of texts. The output
  contains the digits of the score, inside the score span followed by \<^verbatim>\<open>/100\<close>, every
  keyword, and every suggestion, inside a list item of its own.
\<close>

theorem match_analysis_rendered:
  assumes "ok r"
    and "JSON_parse g (rawText r) = Some (JObject kvs)"
    and "map_of kvs ''match_score'' = Some (JNumber n)"
    and "isSafeInteger n"
    and "map_of kvs ''summary'' = None \<or> map_of kvs ''summary'' = Some (JString s)"
    and "map_of kvs ''missing_keywords'' = Some (JArray (map JString ks))"
    and "map_of kvs ''tailoring_suggestions'' = Some (JArray (map JString ts))"
  shows \<open>sublist (Number_toString n) (resultsDiv_innerHTML (on_submit g (Responded r) u))
    \<and> sublist (''<span class="score">'' @ Number_toString n @ ''/100</span>'')
         (resultsDiv_innerHTML (on_submit g (Responded r) u))
    \<and> (\<forall>k \<in> set ks. sublist k (resultsDiv_innerHTML (on_submit g (Responded r) u)))
    \<and> (\<forall>t \<in> set ts.
          sublist t (resultsDiv_innerHTML (on_submit g (Responded r) u))
          \<and> sublist (''<li>'' @ t @ ''</li>'')
               (resultsDiv_innerHTML (on_submit g (Responded r) u)))\<close>
proof -
  define sm where "sm = (if map_of kvs ''summary'' = None \<or> s = [] then default_summary else s)"
  define kw where "kw = text_or (join '', '' ks) no_missing_keywords"
  define body where "body = match_html (Number_toString n) sm kw (map li_element ts)"
  define html where "html = resultsDiv_innerHTML (on_submit g (Responded r) u)"
  have "try_block g (Responded r) = Inr (''<h2>Analysis Complete!</h2>'' @ body)"
    unfolding body_def sm_def kw_def
    using assms(1) render_match_texts [OF assms(2,3,5-7)] by (simp only: try_block_ok)
  then have html: "html = ''<h2>Analysis Complete!</h2>'' @ body"
    unfolding html_def by (rule on_submit_html)
  have span: "sublist (score_span (Number_toString n)) html"
    unfolding html body_def by (rule sublist_right) (rule score_in_match_html)
  have score: "sublist (Number_toString n) html"
    using sublist_score_span span by (rule sublist_trans)
  have kw: "sublist k html" if "k \<in> set ks" for k
  proof -
    have "sublist k kw" unfolding kw_def using that by (rule sublist_text_or)
    then have "sublist k (p_element kw)"
      by (rule sublist_trans) (rule sublist_p_element)
    then have "sublist k body"
      unfolding body_def by (rule sublist_trans) (rule keywords_in_match_html)
    then show ?thesis unfolding html by (rule sublist_right)
  qed
  have item: "sublist (li_element t) html" if "t \<in> set ts" for t
  proof -
    have "sublist (li_element t) (join [] (map li_element ts))"
      using that by (rule sublist_items)
    then have "sublist (li_element t) body"
      unfolding body_def by (rule sublist_trans) (rule items_in_match_html)
    then show ?thesis unfolding html by (rule sublist_right)
  qed
  have plain: "sublist t html" if "t \<in> set ts" for t
    using sublist_li_element item [OF that] by (rule sublist_trans)
  show ?thesis
  proof (intro conjI ballI)
    show "sublist (Number_toString n) (resultsDiv_innerHTML (on_submit g (Responded r) u))"
      using score unfolding html_def .
    show \<open>sublist (''<span class="score">'' @ Number_toString n @ ''/100</span>'')
            (resultsDiv_innerHTML (on_submit g (Responded r) u))\<close>
      using span unfolding html_def score_span_def .
    show "sublist k (resultsDiv_innerHTML (on_submit g (Responded r) u))" if "k \<in> set ks" for k
      using kw [OF that] unfolding html_def .
    show "sublist t (resultsDiv_innerHTML (on_submit g (Responded r) u))" if "t \<in> set ts" for t
      using plain [OF that] unfolding html_def .
    show "sublist (''<li>'' @ t @ ''</li>'') (resultsDiv_innerHTML (on_submit g (Responded r) u))"
      if "t \<in> set ts" for t
      using item [OF that] unfolding html_def li_element_def .
  qed
qed

theorem match_analysis_rendered_witness:
  \<open>ok \<lparr>status = 200, statusText = ''OK'',
        rawText = ''{"match_score":85,"summary":"Strong fit.","missing_keywords":["Docker","AWS"],"tailoring_suggestions":["Add metrics"]}''\<rparr>
   \<and> isSafeInteger 85
   \<and> sublist ''85''
        (resultsDiv_innerHTML (on_submit example_engine (Responded
           \<lparr>status = 200, statusText = ''OK'',
            rawText = ''{"match_score":85,"summary":"Strong fit.","missing_keywords":["Docker","AWS"],"tailoring_suggestions":["Add metrics"]}''\<rparr>)
           example_page))
   \<and> sublist ''<span class="score">85/100</span>''
        (resultsDiv_innerHTML (on_submit example_engine (Responded
           \<lparr>status = 200, statusText = ''OK'',
            rawText = ''{"match_score":85,"summary":"Strong fit.","missing_keywords":["Docker","AWS"],"tailoring_suggestions":["Add metrics"]}''\<rparr>)
           example_page))
   \<and> sublist ''Docker''
        (resultsDiv_innerHTML (on_submit example_engine (Responded
           \<lparr>status = 200, statusText = ''OK'',
            rawText = ''{"match_score":85,"summary":"Strong fit.","missing_keywords":["Docker","AWS"],"tailoring_suggestions":["Add metrics"]}''\<rparr>)
           example_page))
   \<and> sublist ''AWS''
        (resultsDiv_innerHTML (on_submit example_engine (Responded
           \<lparr>status = 200, statusText = ''OK'',
            rawText = ''{"match_score":85,"summary":"Strong fit.","missing_keywords":["Docker","AWS"],"tailoring_suggestions":["Add metrics"]}''\<rparr>)
           example_page))
   \<and> sublist ''Add metrics''
        (resultsDiv_innerHTML (on_submit example_engine (Responded
           \<lparr>status = 200, statusText = ''OK'',
            rawText = ''{"match_score":85,"summary":"Strong fit.","missing_keywords":["Docker","AWS"],"tailoring_suggestions":["Add metrics"]}''\<rparr>)
           example_page))
   \<and> sublist ''<li>Add metrics</li>''
        (resultsDiv_innerHTML (on_submit example_engine (Responded
           \<lparr>status = 200, statusText = ''OK'',
            rawText = ''{"match_score":85,"summary":"Strong fit.","missing_keywords":["Docker","AWS"],"tailoring_suggestions":["Add metrics"]}''\<rparr>)
           example_page))\<close>
proof -
  define r where \<open>r = \<lparr>status = 200, statusText = ''OK'',
        rawText = ''{"match_score":85,"summary":"Strong fit.","missing_keywords":["Docker","AWS"],"tailoring_suggestions":["Add metrics"]}''\<rparr>\<close>
  define kvs where
    "kvs = [(''match_score'', JNumber 85), (''summary'', JString ''Strong fit.''),
            (''missing_keywords'', JArray [JString ''Docker'', JString ''AWS'']),
            (''tailoring_suggestions'', JArray [JString ''Add metrics''])]"
  have h1: "ok r" by (simp add: r_def ok_def)
  have h2: "JSON_parse example_engine (rawText r) = Some (JObject kvs)"
    by (simp add: r_def kvs_def example_engine_def example_bodies_def)
  have h3: "map_of kvs ''match_score'' = Some (JNumber 85)" by (simp add: kvs_def)
  have hs: "isSafeInteger 85" by (simp add: isSafeInteger_def MAX_SAFE_INTEGER_def)
  have h4: "map_of kvs ''summary'' = None \<or> map_of kvs ''summary'' = Some (JString ''Strong fit.'')"
    by (simp add: kvs_def)
  have h5: "map_of kvs ''missing_keywords'' = Some (JArray (map JString [''Docker'', ''AWS'']))"
    by (simp add: kvs_def)
  have h6: "map_of kvs ''tailoring_suggestions'' = Some (JArray (map JString [''Add metrics'']))"
    by (simp add: kvs_def)
  have n: "Number_toString 85 = ''85''"
    by (simp add: Number_toString_def nat_digits.simps digit_char_def)
  from match_analysis_rendered [OF h1 h2 h3 hs h4 h5 h6, of example_page] h1 hs
  show ?thesis unfolding n r_def by simp
qed



section \<open>Errors raised while rendering\<close>


















lemma missing_list_example:
  \<open>resultsDiv_innerHTML
     (on_submit example_engine
       (Responded \<lparr>status = 200, statusText = ''OK'', rawText = ''{"match_score":50}''\<rparr>)
       example_page)
   = error_box (''Cannot read properties of undefined (reading '' @ [CHR 0x27] @ ''join''
                @ [CHR 0x27] @ '')'')\<close>
  by (simp add: on_submit_def finally_block_def catch_block_def try_block_def render_def
      match_template_def errorMessage_of_def ok_def example_engine_def example_bodies_def
      Number_toString_def nat_digits.simps digit_char_def default_summary_def)

section \<open>Rendering a general analysis\<close>

lemma score_in_general_html: "sublist (score_span sc) (general_html sc ss fs rs)"
  unfolding general_html_def by (rule sublist_append_rightI | rule sublist_right)+

lemma strengths_in_general_html: "sublist (join [] ss) (general_html sc ss fs rs)"
  unfolding general_html_def by (rule sublist_append_rightI | rule sublist_right)+

lemma feedback_in_general_html: "sublist (join [] fs) (general_html sc ss fs rs)"
  unfolding general_html_def by (rule sublist_append_rightI | rule sublist_right)+

lemma roles_in_general_html: "sublist (join [] rs) (general_html sc ss fs rs)"
  unfolding general_html_def by (rule sublist_append_rightI | rule sublist_right)+

lemma role_item_text:
  "encodeURIComponent g role = Some enc \<Longrightarrow>
   role_item g (JString role) = Inr (li_element (role @ '' - '' @ search_link enc))"
  by (simp add: role_item_def encode_component_def)

lemma role_items_texts:
  assumes "\<forall>role \<in> set js. encodeURIComponent g role \<noteq> None"
  shows "in_order (map (role_item g) (map JString js))
           = Inr (map (\<lambda>role. li_element (role @ '' - ''
                          @ search_link (the (encodeURIComponent g role)))) js)"
  using assms by (induction js) (auto simp: role_item_text)

lemma ats_score_text:
  assumes "ats = None \<or> (ats = Some (JNumber a) \<and> a \<noteq> 0)"
  shows "ToString g (logical_or ats (JString ''N/A''))
           = Inr (if ats = None then ''N/A'' else Number_toString a)"
  using assms by auto

lemma general_template_texts:
  assumes "map_of kvs ''ats_score'' = None
           \<or> (map_of kvs ''ats_score'' = Some (JNumber a) \<and> a \<noteq> 0)"
    and "map_of kvs ''strengths'' = Some (JArray (map JString ss))"
    and "map_of kvs ''feedback'' = Some (JArray (map JString fs))"
    and "map_of kvs ''job_suggestions'' = Some (JArray (map JString js))"
    and "\<forall>role \<in> set js. encodeURIComponent g role \<noteq> None"
  shows "general_template g (JObject kvs)
           = Inr (general_html
                   (if map_of kvs ''ats_score'' = None then ''N/A'' else Number_toString a)
                   (map li_element ss) (map li_element fs)
                   (map (\<lambda>role. li_element (role @ '' - ''
                           @ search_link (the (encodeURIComponent g role)))) js))"
proof -
  have roles: "call_map g ''analysis.job_suggestions'' (Some (JArray (map JString js)))
                 (role_item g)
               = Inr (map (\<lambda>role. li_element (role @ '' - ''
                           @ search_link (the (encodeURIComponent g role)))) js)"
    using role_items_texts [OF assms(5)] by (simp only: call_map.simps)
  show ?thesis
    unfolding general_template_def
    by (simp only: get_prop.simps assms(2,3,4) and_then_Inr ats_score_text [OF assms(1)]
        call_map_texts roles)
qed

lemma general_analysis_rendered:
  assumes "ok r"
    and "JSON_parse g (rawText r) = Some (JObject kvs)"
    and "map_of kvs ''match_score'' = None"
    and "map_of kvs ''ats_score'' = None
         \<or> (map_of kvs ''ats_score'' = Some (JNumber a) \<and> a \<noteq> 0)"
    and "map_of kvs ''strengths'' = Some (JArray (map JString ss))"
    and "map_of kvs ''feedback'' = Some (JArray (map JString fs))"
    and "map_of kvs ''job_suggestions'' = Some (JArray (map JString js))"
    and "\<forall>role \<in> set js. encodeURIComponent g role \<noteq> None"
  shows "sublist (score_span (if map_of kvs ''ats_score'' = None then ''N/A''
                               else Number_toString a))
           (resultsDiv_innerHTML (on_submit g (Responded r) u))
    \<and> (\<forall>s \<in> set ss. sublist (li_element s)
          (resultsDiv_innerHTML (on_submit g (Responded r) u)))
    \<and> (\<forall>f \<in> set fs. sublist (li_element f)
          (resultsDiv_innerHTML (on_submit g (Responded r) u)))
    \<and> (\<forall>role \<in> set js. \<exists>enc. encodeURIComponent g role = Some enc
          \<and> sublist (li_element (role @ '' - '' @ search_link enc))
               (resultsDiv_innerHTML (on_submit g (Responded r) u)))"
proof -
  define sc where
    "sc = (if map_of kvs ''ats_score'' = None then ''N/A'' else Number_toString a)"
  define link where
    "link = (\<lambda>role. li_element (role @ '' - '' @ search_link (the (encodeURIComponent g role))))"
  define body where
    "body = general_html sc (map li_element ss) (map li_element fs) (map link js)"
  define html where "html = resultsDiv_innerHTML (on_submit g (Responded r) u)"
  have "general_template g (JObject kvs) = Inr body"
    unfolding body_def sc_def link_def by (rule general_template_texts [OF assms(4-8)])
  with assms(2,3) have "render g r = Inr (''<h2>Analysis Complete!</h2>'' @ body)"
    by (simp add: render_def)
  with assms(1) have "try_block g (Responded r) = Inr (''<h2>Analysis Complete!</h2>'' @ body)"
    by (simp only: try_block_ok)
  then have html: "html = ''<h2>Analysis Complete!</h2>'' @ body"
    unfolding html_def by (rule on_submit_html)
  have score: "sublist (score_span sc) html"
    unfolding html body_def by (rule sublist_right) (rule score_in_general_html)
  have strength: "sublist (li_element s) html" if "s \<in> set ss" for s
  proof -
    have "sublist (li_element s) (join [] (map li_element ss))"
      using that by (rule sublist_items)
    then have "sublist (li_element s) body"
      unfolding body_def by (rule sublist_trans) (rule strengths_in_general_html)
    then show ?thesis unfolding html by (rule sublist_right)
  qed
  have feedback: "sublist (li_element f) html" if "f \<in> set fs" for f
  proof -
    have "sublist (li_element f) (join [] (map li_element fs))"
      using that by (rule sublist_items)
    then have "sublist (li_element f) body"
      unfolding body_def by (rule sublist_trans) (rule feedback_in_general_html)
    then show ?thesis unfolding html by (rule sublist_right)
  qed
  have role: "\<exists>enc. encodeURIComponent g role = Some enc
                \<and> sublist (li_element (role @ '' - '' @ search_link enc)) html"
    if "role \<in> set js" for role
  proof -
    from that assms(8) obtain enc where enc: "encodeURIComponent g role = Some enc" by auto
    have "sublist (link role) (join [] (map link js))"
      using that by (rule sublist_items)
    then have "sublist (link role) body"
      unfolding body_def by (rule sublist_trans) (rule roles_in_general_html)
    then have "sublist (link role) html" unfolding html by (rule sublist_right)
    with enc show ?thesis by (simp add: link_def)
  qed
  from score strength feedback role show ?thesis unfolding html_def sc_def by blast
qed

lemma general_analysis_example:
  \<open>sublist (score_span ''72'')
     (resultsDiv_innerHTML (on_submit example_engine (Responded
        \<lparr>status = 200, statusText = ''OK'',
         rawText = ''{"ats_score":72,"strengths":["Clear layout"],"feedback":["Add a summary"],"job_suggestions":["Data Analyst"]}''\<rparr>)
        example_page))
   \<and> sublist (li_element ''Clear layout'')
     (resultsDiv_innerHTML (on_submit example_engine (Responded
        \<lparr>status = 200, statusText = ''OK'',
         rawText = ''{"ats_score":72,"strengths":["Clear layout"],"feedback":["Add a summary"],"job_suggestions":["Data Analyst"]}''\<rparr>)
        example_page))
   \<and> sublist (li_element ''Add a summary'')
     (resultsDiv_innerHTML (on_submit example_engine (Responded
        \<lparr>status = 200, statusText = ''OK'',
         rawText = ''{"ats_score":72,"strengths":["Clear layout"],"feedback":["Add a summary"],"job_suggestions":["Data Analyst"]}''\<rparr>)
        example_page))
   \<and> sublist (li_element (''Data Analyst - <a href="https://www.linkedin.com/jobs/search/?keywords=Data%20Analyst&location=India" target="_blank">Search on LinkedIn</a>''))
     (resultsDiv_innerHTML (on_submit example_engine (Responded
        \<lparr>status = 200, statusText = ''OK'',
         rawText = ''{"ats_score":72,"strengths":["Clear layout"],"feedback":["Add a summary"],"job_suggestions":["Data Analyst"]}''\<rparr>)
        example_page))\<close>
proof -
  define r where \<open>r = \<lparr>status = 200, statusText = ''OK'',
         rawText = ''{"ats_score":72,"strengths":["Clear layout"],"feedback":["Add a summary"],"job_suggestions":["Data Analyst"]}''\<rparr>\<close>
  define kvs where
    "kvs = [(''ats_score'', JNumber 72), (''strengths'', JArray [JString ''Clear layout'']),
            (''feedback'', JArray [JString ''Add a summary'']),
            (''job_suggestions'', JArray [JString ''Data Analyst''])]"
  have h1: "ok r" by (simp add: r_def ok_def)
  have h2: "JSON_parse example_engine (rawText r) = Some (JObject kvs)"
    by (simp add: r_def kvs_def example_engine_def example_bodies_def)
  have h3: "map_of kvs ''match_score'' = None" by (simp add: kvs_def)
  have h4: "map_of kvs ''ats_score'' = None
            \<or> (map_of kvs ''ats_score'' = Some (JNumber 72) \<and> (72::int) \<noteq> 0)"
    by (simp add: kvs_def)
  have h5: "map_of kvs ''strengths'' = Some (JArray (map JString [''Clear layout'']))"
    by (simp add: kvs_def)
  have h6: "map_of kvs ''feedback'' = Some (JArray (map JString [''Add a summary'']))"
    by (simp add: kvs_def)
  have h7: "map_of kvs ''job_suggestions'' = Some (JArray (map JString [''Data Analyst'']))"
    by (simp add: kvs_def)
  have h8: "\<forall>role \<in> set [''Data Analyst'']. encodeURIComponent example_engine role \<noteq> None"
    by (simp add: example_engine_def)
  have n: "Number_toString 72 = ''72''"
    by (simp add: Number_toString_def nat_digits.simps digit_char_def)
  have a: "map_of kvs ''ats_score'' \<noteq> None" by (simp add: kvs_def)
  have enc: "encodeURIComponent example_engine ''Data Analyst'' = Some ''Data%20Analyst''"
    by (simp add: example_engine_def percent_encode_def unreserved_def hex_digit_def)
  have link: \<open>''Data Analyst'' @ '' - '' @ search_link ''Data%20Analyst''
     = ''Data Analyst - <a href="https://www.linkedin.com/jobs/search/?keywords=Data%20Analyst&location=India" target="_blank">Search on LinkedIn</a>''\<close>
    by (simp add: search_link_def linkedinUrl_def)
  from general_analysis_rendered [OF h1 h2 h3 h4 h5 h6 h7 h8, of example_page]
  show ?thesis unfolding r_def [symmetric] link [symmetric] using a enc by (simp add: n)
qed

text \<open>
  Claim C2: for a response with a success status whose body is valid JSON without a
  \<^verbatim>\<open>match_score\<close> field, the rendered output includes the \<^verbatim>\<open>ats_score\<close> value, or
  the text \<^verbatim>\<open>N/A\<close> exactly when \<^verbatim>\<open>ats_score\<close> is absent, and every strength, feedback
  item and job suggestion, each suggestion with its search link.

  The lists and the links are rendered as claimed (\<open>general_analysis_rendered\<close> above,
  for a score that is absent or not zero). The score is not: \<^verbatim>\<open>analysis.ats_score || 'N/A'\<close>
  takes the score 0 for an absent one, so a body with \<^verbatim>\<open>"ats_score":0\<close> is rendered with
  \<^verbatim>\<open>N/A\<close> in the score span and its score is not shown.
\<close>

theorem zero_ats_score_rendered_as_absent:
  \<open>JSON_parse example_engine
      ''{"ats_score":0,"strengths":[],"feedback":[],"job_suggestions":[]}''
     = Some (JObject [(''ats_score'', JNumber 0), (''strengths'', JArray []),
                      (''feedback'', JArray []), (''job_suggestions'', JArray [])])
   \<and> ok \<lparr>status = 200, statusText = ''OK'',
          rawText = ''{"ats_score":0,"strengths":[],"feedback":[],"job_suggestions":[]}''\<rparr>
   \<and> resultsDiv_innerHTML
        (on_submit example_engine
          (Responded \<lparr>status = 200, statusText = ''OK'',
             rawText = ''{"ats_score":0,"strengths":[],"feedback":[],"job_suggestions":[]}''\<rparr>)
          example_page)
      = ''<h2>Analysis Complete!</h2>'' @ general_html ''N/A'' [] [] []
   \<and> sublist (score_span ''N/A'') (''<h2>Analysis Complete!</h2>'' @ general_html ''N/A'' [] [] [])
   \<and> \<not> sublist (score_span ''0'') (''<h2>Analysis Complete!</h2>'' @ general_html ''N/A'' [] [] [])\<close>
proof (intro conjI)
  show \<open>JSON_parse example_engine
      ''{"ats_score":0,"strengths":[],"feedback":[],"job_suggestions":[]}''
     = Some (JObject [(''ats_score'', JNumber 0), (''strengths'', JArray []),
                      (''feedback'', JArray []), (''job_suggestions'', JArray [])])\<close>
    by (simp add: example_engine_def example_bodies_def)
  show \<open>ok \<lparr>status = 200, statusText = ''OK'',
          rawText = ''{"ats_score":0,"strengths":[],"feedback":[],"job_suggestions":[]}''\<rparr>\<close>
    by (simp add: ok_def)
  show \<open>resultsDiv_innerHTML
        (on_submit example_engine
          (Responded \<lparr>status = 200, statusText = ''OK'',
             rawText = ''{"ats_score":0,"strengths":[],"feedback":[],"job_suggestions":[]}''\<rparr>)
          example_page)
      = ''<h2>Analysis Complete!</h2>'' @ general_html ''N/A'' [] [] []\<close>
    by (simp add: on_submit_def finally_block_def try_block_def render_def
        general_template_def ok_def example_engine_def example_bodies_def Let_def)
  show "sublist (score_span ''N/A'') (''<h2>Analysis Complete!</h2>'' @ general_html ''N/A'' [] [] [])"
    by (rule sublist_right) (rule score_in_general_html)
  show \<open>\<not> sublist (score_span ''0'') (''<h2>Analysis Complete!</h2>'' @ general_html ''N/A'' [] [] [])\<close>
    by code_simp
qed

end
